theory Spec2Isabelle
  imports Complex_Main "HOL-Library.Word"
begin

section \<open>go-asten: profiles, groups, builders and their statistics\<close>

text \<open>
  The Go package keeps its data in heap objects that point at each other: a
  \<^verbatim>\<open>*ProfileSt\<close> has a \<^verbatim>\<open>parent\<close> pointer, a map of sub-profiles and a pointer to
  its \<^verbatim>\<open>*ProfileBuilder\<close>; a builder points at the profile or group it builds for.
  The embedding keeps that shape. A pointer is an address (an index into a list
  of objects of its type), \<^verbatim>\<open>nil\<close> is \<open>None\<close>, and allocation appends to the list.

  Conventions:
  \<^item> \<^verbatim>\<open>uint64\<close> is \<open>64 word\<close>; \<^verbatim>\<open>/\<close> on it panics on a zero divisor, which the
    model returns as \<open>Inl DivideByZero\<close>.
  \<^item> A Go map is an association list in insertion order. The code only ever
    inserts under a name it has just found absent, so keys stay distinct; a
    \<^verbatim>\<open>nil\<close> map and an empty map read alike and are both \<open>[]\<close> (the one write,
    in \<^verbatim>\<open>addProfile\<close>, comes after the map has been made).
  \<^item> \<^verbatim>\<open>*profileStats\<close> is owned by exactly one profile and its back pointer
    \<^verbatim>\<open>profile\<close> always is that owner, so the stats record is stored inside the
    profile. A \<^verbatim>\<open>groupStats\<close> copy keeps pointing at the group it was copied
    from, so \<open>gs_group\<close> is kept.
  \<^item> Locks are not modelled: every operation runs alone.
  \<^item> \<^verbatim>\<open>logger\<close> calls append the level and the message to \<open>logs\<close>; the
    attributes of a message are dropped.
  \<^item> Functions that follow pointers recursively take fuel and return
    \<open>Inl OutOfFuel\<close> when it runs out.
\<close>

subsection \<open>Errors\<close>

datatype error = DivideByZero | NilDereference | IndexOutOfRange | OutOfFuel

fun forEach :: "('s \<Rightarrow> 'a \<Rightarrow> error + 's) \<Rightarrow> 'a list \<Rightarrow> 's \<Rightarrow> error + 's" where
  "forEach f [] s = Inr s"
| "forEach f (x # xs) s = (case f s x of Inl e \<Rightarrow> Inl e | Inr s' \<Rightarrow> forEach f xs s')"

subsection \<open>float64 ratios\<close>

text \<open>
  \<^verbatim>\<open>float64(a) / float64(b)\<close> for two \<^verbatim>\<open>uint64\<close>: not-a-number for 0/0, plus
  infinity for a positive numerator over 0, and otherwise the quotient. The
  quotient is kept exact; the rounding to 53 bits is not modelled.
\<close>

datatype float64 = Fin rat | PosInf | NaN

definition float_div :: "64 word \<Rightarrow> 64 word \<Rightarrow> float64" where
  "float_div a b =
     (if b = 0 then (if a = 0 then NaN else PosInf)
      else Fin (of_nat (unat a) / of_nat (unat b)))"

subsection \<open>Samples\<close>

text \<open>Instants are nanoseconds on one time line.\<close>

record sample =
  s_start :: int
  s_end :: int

definition newSample :: "int \<Rightarrow> int \<Rightarrow> sample" where
  "newSample st en = \<lparr>s_start = st, s_end = en\<rparr>"

text \<open>\<^verbatim>\<open>time.Time.Sub\<close> saturates at the ends of \<^verbatim>\<open>int64\<close>.\<close>

definition Sub :: "int \<Rightarrow> int \<Rightarrow> int" where
  "Sub t u =
     (let d = t - u in
      if d < - (2 ^ 63) then - (2 ^ 63) else if d > 2 ^ 63 - 1 then 2 ^ 63 - 1 else d)"

definition getDurationNano :: "sample \<Rightarrow> 64 word" where
  "getDurationNano s = word_of_int (Sub (s_end s) (s_start s))"

subsection \<open>Objects\<close>

record profileStats =
  valid :: bool
  totalTime :: "64 word"
  effectiveTime :: "64 word"
  meanTime :: "64 word"
  nsamples :: "64 word"
  timeslice :: float64
  taken :: float64
  samples :: "sample list"

record groupStats =
  gs_group :: nat
  gs_valid :: bool
  gs_totalTime :: "64 word"
  gs_effectiveTime :: "64 word"
  gs_nsamples :: "64 word"

record ProfileBuilder =
  pb_parentGroup :: "nat option"
  pb_parentProfile :: "nat option"
  pb_composite :: bool
  pb_nThreads :: "64 word"
  pb_memory :: bool

record ProfileSt =
  name :: string
  parent :: "nat option"
  composite :: bool
  builder :: nat
  subProfiles :: "(string \<times> nat) list"
  nThreads :: "64 word"
  memory :: bool
  stats :: profileStats

record GroupSt =
  g_name :: string
  g_stats :: groupStats
  g_builder :: nat
  g_profiles :: "(string \<times> nat) list"

record Timer =
  t_profile :: nat
  t_conds :: "string list"
  t_start :: int
  t_end :: int

datatype level = Warn | Error

text \<open>
  The program state: the three object heaps and the package variables
  \<^verbatim>\<open>ggroups\<close>, \<^verbatim>\<open>default_condition_name\<close>, \<^verbatim>\<open>cores\<close>, and what the logger received.
\<close>

record state =
  profs :: "ProfileSt list"
  bldrs :: "ProfileBuilder list"
  grps :: "GroupSt list"
  ggroups :: "(string \<times> nat) list"
  default_condition_name :: string
  cores :: "64 word"
  logs :: "(level \<times> string) list"

definition init :: "64 word \<Rightarrow> state" where
  "init ncpu =
     \<lparr>profs = [], bldrs = [], grps = [], ggroups = [],
      default_condition_name = ''base'', cores = ncpu, logs = []\<rparr>"

definition logger :: "level \<Rightarrow> string \<Rightarrow> state \<Rightarrow> state" where
  "logger l m \<sigma> = \<sigma>\<lparr>logs := logs \<sigma> @ [(l, m)]\<rparr>"

definition setProfile :: "state \<Rightarrow> nat \<Rightarrow> ProfileSt \<Rightarrow> state" where
  "setProfile \<sigma> a p = \<sigma>\<lparr>profs := (profs \<sigma>)[a := p]\<rparr>"

definition setStats :: "state \<Rightarrow> nat \<Rightarrow> profileStats \<Rightarrow> state" where
  "setStats \<sigma> a s = setProfile \<sigma> a ((profs \<sigma> ! a)\<lparr>stats := s\<rparr>)"

definition setBuilder :: "state \<Rightarrow> nat \<Rightarrow> ProfileBuilder \<Rightarrow> state" where
  "setBuilder \<sigma> a b = \<sigma>\<lparr>bldrs := (bldrs \<sigma>)[a := b]\<rparr>"

definition setGroup :: "state \<Rightarrow> nat \<Rightarrow> GroupSt \<Rightarrow> state" where
  "setGroup \<sigma> a g = \<sigma>\<lparr>grps := (grps \<sigma>)[a := g]\<rparr>"

subsection \<open>Package configuration\<close>

definition SetDefaultConditionName :: "state \<Rightarrow> string \<Rightarrow> state" where
  "SetDefaultConditionName \<sigma> nm = \<sigma>\<lparr>default_condition_name := nm\<rparr>"

definition SetCoresNumber :: "state \<Rightarrow> 64 word \<Rightarrow> state" where
  "SetCoresNumber \<sigma> n =
     (if n > 0 then \<sigma>\<lparr>cores := n\<rparr> else logger Error ''invalid cores number'' \<sigma>)"

subsection \<open>Statistics\<close>

definition newGroupStats :: "nat \<Rightarrow> groupStats" where
  "newGroupStats g =
     \<lparr>gs_group = g, gs_valid = False, gs_totalTime = 0, gs_effectiveTime = 0, gs_nsamples = 0\<rparr>"

definition newProfileStats :: profileStats where
  "newProfileStats =
     \<lparr>valid = True, totalTime = 0, effectiveTime = 0, meanTime = 0, nsamples = 0,
      timeslice = Fin 0, taken = Fin 0, samples = []\<rparr>"

text \<open>\<^verbatim>\<open>profileStats.copy\<close> and \<^verbatim>\<open>groupStats.copy\<close> copy every field.\<close>

definition profileStats_copy :: "profileStats \<Rightarrow> profileStats" where
  "profileStats_copy ps =
     \<lparr>valid = valid ps, totalTime = totalTime ps, effectiveTime = effectiveTime ps,
      meanTime = meanTime ps, nsamples = nsamples ps, timeslice = timeslice ps,
      taken = taken ps, samples = samples ps\<rparr>"

definition groupStats_copy :: "groupStats \<Rightarrow> groupStats" where
  "groupStats_copy gs =
     \<lparr>gs_group = gs_group gs, gs_valid = gs_valid gs, gs_totalTime = gs_totalTime gs,
      gs_effectiveTime = gs_effectiveTime gs, gs_nsamples = gs_nsamples gs\<rparr>"

text \<open>
  \<^verbatim>\<open>profileStats.invalidate\<close>: mark this record, then the parent's, and so on up.
\<close>

fun invalidate :: "nat \<Rightarrow> state \<Rightarrow> nat \<Rightarrow> error + state" where
  "invalidate 0 \<sigma> a = Inl OutOfFuel"
| "invalidate (Suc n) \<sigma> a =
     (if \<not> a < length (profs \<sigma>) then Inl NilDereference
      else
        let \<sigma>1 = setStats \<sigma> a ((stats (profs \<sigma> ! a))\<lparr>valid := False\<rparr>) in
        (case parent (profs \<sigma>1 ! a) of
           None \<Rightarrow> Inr \<sigma>1
         | Some pp \<Rightarrow> invalidate n \<sigma>1 pp))"

text \<open>
  \<^verbatim>\<open>profileStats.registerSample\<close> on the stats of profile \<open>a\<close>. A parent chain
  without a cycle visits each profile at most once, so the number of profiles
  is fuel enough for \<^verbatim>\<open>invalidate\<close>.
\<close>

definition registerSample :: "state \<Rightarrow> nat \<Rightarrow> sample \<Rightarrow> error + state" where
  "registerSample \<sigma> a smp =
     (case invalidate (length (profs \<sigma>)) \<sigma> a of
        Inl e \<Rightarrow> Inl e
      | Inr \<sigma>1 \<Rightarrow>
          let p = profs \<sigma>1 ! a; s = stats p in
          if memory p then
            Inr (setStats \<sigma>1 a (s\<lparr>samples := samples s @ [smp], nsamples := nsamples s + 1\<rparr>))
          else
            let duration = getDurationNano smp;
                s1 = s\<lparr>nsamples := nsamples s + 1, totalTime := totalTime s + duration\<rparr>
            in
            if nThreads p = 0 then Inl DivideByZero
            else
              let s2 = s1\<lparr>effectiveTime := effectiveTime s1 + duration div nThreads p\<rparr> in
              if nsamples s2 = 0 then Inl DivideByZero
              else Inr (setStats \<sigma>1 a
                     (s2\<lparr>meanTime := effectiveTime s2 div nsamples s2, valid := True\<rparr>)))"

text \<open>
  The two loops of the composite branch of \<^verbatim>\<open>profileStats.update\<close>. Each step
  reads the child's and the parent's stats from the heap as it is then.
\<close>

definition addSubStats :: "nat \<Rightarrow> state \<Rightarrow> string \<times> nat \<Rightarrow> error + state" where
  "addSubStats a \<sigma> e =
     (let c = snd e in
      if \<not> c < length (profs \<sigma>) then Inl NilDereference
      else
        let subStats = stats (profs \<sigma> ! c); s = stats (profs \<sigma> ! a) in
        Inr (setStats \<sigma> a
          (s\<lparr>totalTime := totalTime s + totalTime subStats,
             effectiveTime := effectiveTime s + effectiveTime subStats,
             nsamples := nsamples s + nsamples subStats\<rparr>)))"

definition setShares :: "nat \<Rightarrow> state \<Rightarrow> string \<times> nat \<Rightarrow> error + state" where
  "setShares a \<sigma> e =
     (let c = snd e in
      if \<not> c < length (profs \<sigma>) then Inl NilDereference
      else
        let \<sigma>1 = setStats \<sigma> c ((stats (profs \<sigma> ! c))
                   \<lparr>timeslice := float_div (effectiveTime (stats (profs \<sigma> ! c)))
                                            (effectiveTime (stats (profs \<sigma> ! a)))\<rparr>)
        in
        Inr (setStats \<sigma>1 c ((stats (profs \<sigma>1 ! c))
               \<lparr>taken := float_div (nsamples (stats (profs \<sigma>1 ! c)))
                                    (nsamples (stats (profs \<sigma>1 ! a)))\<rparr>)))"

definition invalid_state_msg :: string where
  "invalid_state_msg =
     ''invalid profile statistics state: non composite memoryless statistics should always be valid''"

text \<open>\<^verbatim>\<open>profileStats.update\<close> on the stats of profile \<open>a\<close>.\<close>

definition profileStats_update :: "state \<Rightarrow> nat \<Rightarrow> error + state" where
  "profileStats_update \<sigma> a =
     (if \<not> a < length (profs \<sigma>) then Inl NilDereference
      else if valid (stats (profs \<sigma> ! a)) then Inr \<sigma>
      else
        let \<sigma>1 = setStats \<sigma> a ((stats (profs \<sigma> ! a))\<lparr>valid := True\<rparr>);
            p = profs \<sigma>1 ! a
        in
        if \<not> composite p then
          (if \<not> memory p then Inr (logger Error invalid_state_msg \<sigma>1)
           else
             let s = (stats p)\<lparr>totalTime := 0, effectiveTime := 0,
                               nsamples := of_nat (length (samples (stats p)))\<rparr>
             in
             if nsamples s = 0 then Inr (setStats \<sigma>1 a (s\<lparr>meanTime := 0, timeslice := Fin 0\<rparr>))
             else
               let s1 = s\<lparr>totalTime := fold (\<lambda>x t. t + getDurationNano x) (samples s) (totalTime s)\<rparr>
               in
               if nsamples s1 < nThreads p then
                 (let s2 = s1\<lparr>effectiveTime := totalTime s1 div nsamples s1\<rparr> in
                  Inr (setStats \<sigma>1 a (s2\<lparr>meanTime := effectiveTime s2 div nsamples s2\<rparr>)))
               else if nThreads p = 0 then Inl DivideByZero
               else
                 (let s2 = s1\<lparr>effectiveTime := totalTime s1 div nThreads p\<rparr> in
                  Inr (setStats \<sigma>1 a (s2\<lparr>meanTime := effectiveTime s2 div nsamples s2\<rparr>))))
        else
          let \<sigma>2 = setStats \<sigma>1 a ((stats p)\<lparr>totalTime := 0, effectiveTime := 0\<rparr>) in
          (case forEach (addSubStats a) (subProfiles (profs \<sigma>2 ! a)) \<sigma>2 of
             Inl e \<Rightarrow> Inl e
           | Inr \<sigma>3 \<Rightarrow>
               let s = stats (profs \<sigma>3 ! a) in
               if nsamples s = 0 then Inl DivideByZero
               else
                 let \<sigma>4 = setStats \<sigma>3 a (s\<lparr>meanTime := effectiveTime s div nsamples s\<rparr>) in
                 forEach (setShares a) (subProfiles (profs \<sigma>4 ! a)) \<sigma>4))"

subsection \<open>Builders\<close>

text \<open>
  A builder method changes the builder it is called on and returns the same
  pointer. \<open>onBuilder\<close> applies such a change to the builder at an address.
\<close>

definition onBuilder :: "(ProfileBuilder \<Rightarrow> ProfileBuilder) \<Rightarrow> state \<Rightarrow> nat \<Rightarrow> error + state" where
  "onBuilder f \<sigma> pb =
     (if \<not> pb < length (bldrs \<sigma>) then Inl NilDereference
      else Inr (setBuilder \<sigma> pb (f (bldrs \<sigma> ! pb))))"

definition NewProfileBuilder :: "state \<Rightarrow> state \<times> nat" where
  "NewProfileBuilder \<sigma> =
     (\<sigma>\<lparr>bldrs := bldrs \<sigma> @
        [\<lparr>pb_parentGroup = None, pb_parentProfile = None, pb_composite = False,
          pb_nThreads = 1, pb_memory = False\<rparr>]\<rparr>,
      length (bldrs \<sigma>))"

text \<open>\<^verbatim>\<open>Copy\<close> does not copy \<^verbatim>\<open>parentGroup\<close>: the new builder has \<^verbatim>\<open>nil\<close> there.\<close>

definition Copy :: "ProfileBuilder \<Rightarrow> ProfileBuilder" where
  "Copy pb =
     \<lparr>pb_parentGroup = None, pb_parentProfile = pb_parentProfile pb,
      pb_composite = pb_composite pb, pb_nThreads = pb_nThreads pb, pb_memory = pb_memory pb\<rparr>"

definition WithParentGroup :: "nat \<Rightarrow> ProfileBuilder \<Rightarrow> ProfileBuilder" where
  "WithParentGroup g pb = pb\<lparr>pb_parentGroup := Some g, pb_parentProfile := None\<rparr>"

definition WithParentProfile :: "nat \<Rightarrow> ProfileBuilder \<Rightarrow> ProfileBuilder" where
  "WithParentProfile p pb = pb\<lparr>pb_parentProfile := Some p, pb_parentGroup := None\<rparr>"

definition AddComposition :: "ProfileBuilder \<Rightarrow> ProfileBuilder" where
  "AddComposition pb = pb\<lparr>pb_composite := True\<rparr>"

definition RemoveComposition :: "ProfileBuilder \<Rightarrow> ProfileBuilder" where
  "RemoveComposition pb = pb\<lparr>pb_composite := False\<rparr>"

definition AddMemory :: "ProfileBuilder \<Rightarrow> ProfileBuilder" where
  "AddMemory pb = pb\<lparr>pb_memory := True\<rparr>"

definition RemoveMemory :: "ProfileBuilder \<Rightarrow> ProfileBuilder" where
  "RemoveMemory pb = pb\<lparr>pb_memory := False\<rparr>"

definition AddMultiThreading :: "state \<Rightarrow> nat \<Rightarrow> error + state" where
  "AddMultiThreading \<sigma> pb = onBuilder (\<lambda>b. b\<lparr>pb_nThreads := cores \<sigma>\<rparr>) \<sigma> pb"

definition RemoveMultiThreading :: "ProfileBuilder \<Rightarrow> ProfileBuilder" where
  "RemoveMultiThreading pb = pb\<lparr>pb_nThreads := 1\<rparr>"

definition threads_msg :: string where
  "threads_msg = ''number of threads must be > 0, setting value to 1''"

definition WithNThreads :: "state \<Rightarrow> nat \<Rightarrow> 64 word \<Rightarrow> error + state" where
  "WithNThreads \<sigma> pb n =
     (let (\<sigma>1, n1) = (if n \<le> 0 then (logger Error threads_msg \<sigma>, 1) else (\<sigma>, n));
          n2 = (if n1 > cores \<sigma>1 then cores \<sigma>1 else n1)
      in onBuilder (\<lambda>b. b\<lparr>pb_nThreads := n2\<rparr>) \<sigma>1 pb)"

definition WithNCores :: "state \<Rightarrow> nat \<Rightarrow> 64 word \<Rightarrow> error + state" where
  "WithNCores \<sigma> pb n =
     (let (\<sigma>1, n1) = (if n \<le> 0 then (logger Error threads_msg \<sigma>, 1) else (\<sigma>, n))
      in onBuilder (\<lambda>b. b\<lparr>pb_nThreads := n1\<rparr>) \<sigma>1 pb)"

subsection \<open>Profiles\<close>

definition composite_msg :: string where
  "composite_msg = ''making profile composite, previous samples will be lost''"

definition redeclare_msg :: string where
  "redeclare_msg = ''attempt to redeclare profile detected''"

definition unsafeMakeComposite :: "state \<Rightarrow> nat \<Rightarrow> state" where
  "unsafeMakeComposite \<sigma> p =
     (if composite (profs \<sigma> ! p) then \<sigma>
      else setProfile \<sigma> p
             ((profs \<sigma> ! p)\<lparr>composite := True, subProfiles := [], stats := newProfileStats\<rparr>))"

text \<open>\<^verbatim>\<open>MakeComposite\<close> is \<^verbatim>\<open>unsafeMakeComposite\<close> under the profile's locks.\<close>

definition MakeComposite :: "state \<Rightarrow> nat \<Rightarrow> error + state" where
  "MakeComposite \<sigma> p =
     (if \<not> p < length (profs \<sigma>) then Inl NilDereference
      else Inr (unsafeMakeComposite \<sigma> p))"

definition ProfileSt_addProfile :: "state \<Rightarrow> nat \<Rightarrow> nat \<Rightarrow> error + state \<times> nat" where
  "ProfileSt_addProfile \<sigma> p sp =
     (if \<not> p < length (profs \<sigma>) \<or> \<not> sp < length (profs \<sigma>) then Inl NilDereference
      else
        let \<sigma>1 = (if \<not> composite (profs \<sigma> ! p)
                   then unsafeMakeComposite (logger Warn composite_msg \<sigma>) p else \<sigma>)
        in
        (case map_of (subProfiles (profs \<sigma>1 ! p)) (name (profs \<sigma>1 ! sp)) of
           Some tmp \<Rightarrow> Inr (logger Warn redeclare_msg \<sigma>1, tmp)
         | None \<Rightarrow>
             let \<sigma>2 = setProfile \<sigma>1 sp ((profs \<sigma>1 ! sp)\<lparr>parent := Some p\<rparr>);
                 \<sigma>3 = setProfile \<sigma>2 p ((profs \<sigma>2 ! p)
                        \<lparr>subProfiles := subProfiles (profs \<sigma>2 ! p) @ [(name (profs \<sigma>2 ! sp), sp)]\<rparr>)
             in Inr (\<sigma>3, sp)))"

definition GroupSt_addProfile :: "state \<Rightarrow> nat \<Rightarrow> nat \<Rightarrow> error + state \<times> nat" where
  "GroupSt_addProfile \<sigma> g p =
     (if \<not> g < length (grps \<sigma>) \<or> \<not> p < length (profs \<sigma>) then Inl NilDereference
      else
        (case map_of (g_profiles (grps \<sigma> ! g)) (name (profs \<sigma> ! p)) of
           Some tmp \<Rightarrow> Inr (logger Warn redeclare_msg \<sigma>, tmp)
         | None \<Rightarrow>
             let \<sigma>1 = setProfile \<sigma> p ((profs \<sigma> ! p)\<lparr>parent := None\<rparr>);
                 \<sigma>2 = setGroup \<sigma>1 g ((grps \<sigma>1 ! g)
                        \<lparr>g_profiles := g_profiles (grps \<sigma>1 ! g) @ [(name (profs \<sigma>1 ! p), p)]\<rparr>)
             in Inr (\<sigma>2, p)))"

text \<open>
  \<^verbatim>\<open>ProfileBuilder.NewProfile\<close>: the new profile and its own builder
  (\<^verbatim>\<open>pb.Copy().RemoveComposition().WithParentProfile(p)\<close>) are allocated, then the
  profile is added to the builder's parent profile, or else to its parent
  group. The result of the group's \<^verbatim>\<open>addProfile\<close> is not used.
\<close>

definition NewProfile :: "state \<Rightarrow> nat \<Rightarrow> string \<Rightarrow> error + state \<times> nat" where
  "NewProfile \<sigma> pb pname =
     (if \<not> pb < length (bldrs \<sigma>) then Inl NilDereference
      else
        let b = bldrs \<sigma> ! pb;
            pa = length (profs \<sigma>);
            ba = length (bldrs \<sigma>);
            p = \<lparr>name = pname, parent = pb_parentProfile b, composite = pb_composite b,
                 builder = ba, subProfiles = [], nThreads = pb_nThreads b,
                 memory = pb_memory b, stats = newProfileStats\<rparr>;
            \<sigma>1 = \<sigma>\<lparr>profs := profs \<sigma> @ [p],
                    bldrs := bldrs \<sigma> @ [WithParentProfile pa (RemoveComposition (Copy b))]\<rparr>
        in
        (case pb_parentProfile b of
           Some q \<Rightarrow> ProfileSt_addProfile \<sigma>1 q pa
         | None \<Rightarrow>
             (case pb_parentGroup b of
                Some g \<Rightarrow>
                  (case GroupSt_addProfile \<sigma>1 g pa of
                     Inl e \<Rightarrow> Inl e
                   | Inr r \<Rightarrow> Inr (fst r, pa))
              | None \<Rightarrow> Inr (\<sigma>1, pa))))"

definition ProfileSt_Profile :: "state \<Rightarrow> nat \<Rightarrow> string \<Rightarrow> error + state \<times> nat" where
  "ProfileSt_Profile \<sigma> p pname =
     (if \<not> p < length (profs \<sigma>) then Inl NilDereference
      else
        (case map_of (subProfiles (profs \<sigma> ! p)) pname of
           Some sp \<Rightarrow> Inr (\<sigma>, sp)
         | None \<Rightarrow> NewProfile \<sigma> (builder (profs \<sigma> ! p)) pname))"

definition builder_msg :: string where
  "builder_msg =
     ''requested builder of non composite profile. Profile will be made composite, all previous samples will be lost''"

definition ProfileSt_Builder :: "state \<Rightarrow> nat \<Rightarrow> error + state \<times> nat" where
  "ProfileSt_Builder \<sigma> p =
     (if \<not> p < length (profs \<sigma>) then Inl NilDereference
      else if composite (profs \<sigma> ! p) then Inr (\<sigma>, builder (profs \<sigma> ! p))
      else
        let \<sigma>1 = unsafeMakeComposite (logger Warn builder_msg \<sigma>) p in
        Inr (\<sigma>1, builder (profs \<sigma>1 ! p)))"

definition ProfileSt_SetBuilder :: "state \<Rightarrow> nat \<Rightarrow> nat \<Rightarrow> error + state" where
  "ProfileSt_SetBuilder \<sigma> p pb =
     (if \<not> p < length (profs \<sigma>) \<or> \<not> pb < length (bldrs \<sigma>) then Inl NilDereference
      else
        let \<sigma>1 = setBuilder \<sigma> pb ((bldrs \<sigma> ! pb)\<lparr>pb_parentProfile := Some p\<rparr>) in
        Inr (setProfile \<sigma>1 p ((profs \<sigma>1 ! p)\<lparr>builder := pb\<rparr>)))"

definition StartTimer :: "nat \<Rightarrow> int \<Rightarrow> Timer" where
  "StartTimer p now = \<lparr>t_profile = p, t_conds = [], t_start = now, t_end = 0\<rparr>"

text \<open>
  \<^verbatim>\<open>ProfileSt.registerTimer\<close>. The timer is passed along with its \<^verbatim>\<open>conds\<close>
  rewritten as the code rewrites them. Reading \<^verbatim>\<open>t.conds[0]\<close> of an empty slice
  panics.
\<close>

fun registerTimer :: "nat \<Rightarrow> state \<Rightarrow> nat \<Rightarrow> Timer \<Rightarrow> error + state" where
  "registerTimer 0 \<sigma> p t = Inl OutOfFuel"
| "registerTimer (Suc n) \<sigma> p t =
     (if length (t_conds t) > 1 then
        (case ProfileSt_Profile \<sigma> p (hd (t_conds t)) of
           Inl e \<Rightarrow> Inl e
         | Inr r \<Rightarrow> registerTimer n (fst r) (snd r) (t\<lparr>t_conds := tl (t_conds t)\<rparr>))
      else if \<not> p < length (profs \<sigma>) then Inl NilDereference
      else
        (case t_conds t of
           [] \<Rightarrow> Inl IndexOutOfRange
         | cond # _ \<Rightarrow>
             if \<not> composite (profs \<sigma> ! p) then
               (if cond \<noteq> default_condition_name \<sigma> then
                  (let \<sigma>1 = unsafeMakeComposite (logger Warn composite_msg \<sigma>) p in
                   case ProfileSt_Profile \<sigma>1 p cond of
                     Inl e \<Rightarrow> Inl e
                   | Inr r \<Rightarrow>
                       registerTimer n (fst r) (snd r)
                         (t\<lparr>t_conds := [default_condition_name \<sigma>]\<rparr>))
                else registerSample \<sigma> p (newSample (t_start t) (t_end t)))
             else
               (case ProfileSt_Profile \<sigma> p cond of
                  Inl e \<Rightarrow> Inl e
                | Inr r \<Rightarrow>
                    registerTimer n (fst r) (snd r)
                      (t\<lparr>t_conds := [default_condition_name \<sigma>]\<rparr>))))"

text \<open>\<^verbatim>\<open>Timer.StopAs\<close> and \<^verbatim>\<open>Timer.Stop\<close>; \<open>now\<close> is what \<^verbatim>\<open>time.Now()\<close> returns.\<close>

definition StopAs :: "nat \<Rightarrow> state \<Rightarrow> Timer \<Rightarrow> int \<Rightarrow> string list \<Rightarrow> error + state" where
  "StopAs n \<sigma> t now conds =
     registerTimer n \<sigma> (t_profile t) (t\<lparr>t_end := now, t_conds := conds\<rparr>)"

definition Stop :: "nat \<Rightarrow> state \<Rightarrow> Timer \<Rightarrow> int \<Rightarrow> error + state" where
  "Stop n \<sigma> t now =
     registerTimer n \<sigma> (t_profile t) (t\<lparr>t_end := now, t_conds := [default_condition_name \<sigma>]\<rparr>)"

text \<open>\<^verbatim>\<open>ProfileSt.update\<close>: the sub-profiles first, then the profile's own stats.\<close>

fun ProfileSt_update :: "nat \<Rightarrow> state \<Rightarrow> nat \<Rightarrow> error + state" where
  "ProfileSt_update 0 \<sigma> p = Inl OutOfFuel"
| "ProfileSt_update (Suc n) \<sigma> p =
     (if \<not> p < length (profs \<sigma>) then Inl NilDereference
      else
        (case forEach (\<lambda>\<sigma>1 e. ProfileSt_update n \<sigma>1 (snd e)) (subProfiles (profs \<sigma> ! p)) \<sigma> of
           Inl e \<Rightarrow> Inl e
         | Inr \<sigma>2 \<Rightarrow> profileStats_update \<sigma>2 p))"

text \<open>
  \<^verbatim>\<open>ProfileSt.copy\<close>: the copy and the copy of its builder are allocated, then
  each sub-profile is copied, entered under its name in the copy's map, and
  given the copy as parent. The top copy's \<^verbatim>\<open>parent\<close> is left \<^verbatim>\<open>nil\<close>.
\<close>

fun ProfileSt_copy :: "nat \<Rightarrow> state \<Rightarrow> nat \<Rightarrow> error + state \<times> nat" where
  "ProfileSt_copy 0 \<sigma> p = Inl OutOfFuel"
| "ProfileSt_copy (Suc n) \<sigma> p =
     (if \<not> p < length (profs \<sigma>) then Inl NilDereference
      else if \<not> builder (profs \<sigma> ! p) < length (bldrs \<sigma>) then Inl NilDereference
      else
        let pr = profs \<sigma> ! p;
            cpa = length (profs \<sigma>);
            cp = \<lparr>name = name pr, parent = None, composite = composite pr,
                  builder = length (bldrs \<sigma>), subProfiles = [], nThreads = nThreads pr,
                  memory = memory pr, stats = profileStats_copy (stats pr)\<rparr>;
            \<sigma>1 = \<sigma>\<lparr>profs := profs \<sigma> @ [cp], bldrs := bldrs \<sigma> @ [Copy (bldrs \<sigma> ! builder pr)]\<rparr>
        in
        if \<not> composite pr then Inr (\<sigma>1, cpa)
        else
          (case forEach
                  (\<lambda>\<sigma>2 e.
                     case ProfileSt_copy n \<sigma>2 (snd e) of
                       Inl er \<Rightarrow> Inl er
                     | Inr r \<Rightarrow>
                         let \<sigma>3 = setProfile (fst r) cpa ((profs (fst r) ! cpa)
                                    \<lparr>subProfiles := subProfiles (profs (fst r) ! cpa) @ [(fst e, snd r)]\<rparr>)
                         in Inr (setProfile \<sigma>3 (snd r) ((profs \<sigma>3 ! snd r)\<lparr>parent := Some cpa\<rparr>)))
                  (subProfiles pr) \<sigma>1 of
             Inl e \<Rightarrow> Inl e
           | Inr \<sigma>4 \<Rightarrow> Inr (\<sigma>4, cpa)))"

definition ProfileSt_updateAndCopy :: "nat \<Rightarrow> state \<Rightarrow> nat \<Rightarrow> error + state \<times> nat" where
  "ProfileSt_updateAndCopy n \<sigma> p =
     (case ProfileSt_update n \<sigma> p of
        Inl e \<Rightarrow> Inl e
      | Inr \<sigma>1 \<Rightarrow> ProfileSt_copy n \<sigma>1 p)"

subsection \<open>Groups\<close>

text \<open>The two loops of \<^verbatim>\<open>groupStats.update\<close>, on the stats of group \<open>g\<close>.\<close>

definition addGroupSubStats :: "nat \<Rightarrow> state \<Rightarrow> string \<times> nat \<Rightarrow> error + state" where
  "addGroupSubStats g \<sigma> e =
     (let c = snd e in
      if \<not> c < length (profs \<sigma>) then Inl NilDereference
      else
        let subStats = stats (profs \<sigma> ! c); gr = grps \<sigma> ! g; s = g_stats gr in
        Inr (setGroup \<sigma> g (gr\<lparr>g_stats :=
          s\<lparr>gs_totalTime := gs_totalTime s + totalTime subStats,
             gs_effectiveTime := gs_effectiveTime s + effectiveTime subStats,
             gs_nsamples := gs_nsamples s + nsamples subStats\<rparr>\<rparr>)))"

definition setGroupShares :: "nat \<Rightarrow> state \<Rightarrow> string \<times> nat \<Rightarrow> error + state" where
  "setGroupShares g \<sigma> e =
     (let c = snd e in
      if \<not> c < length (profs \<sigma>) then Inl NilDereference
      else
        let s = g_stats (grps \<sigma> ! g); subStats = stats (profs \<sigma> ! c) in
        Inr (setStats \<sigma> c
          (subStats\<lparr>timeslice := float_div (effectiveTime subStats) (gs_effectiveTime s),
                    taken := float_div (nsamples subStats) (gs_nsamples s)\<rparr>)))"

definition groupStats_update :: "state \<Rightarrow> nat \<Rightarrow> error + state" where
  "groupStats_update \<sigma> g =
     (if \<not> g < length (grps \<sigma>) then Inl NilDereference
      else if gs_valid (g_stats (grps \<sigma> ! g)) then Inr \<sigma>
      else
        let gr = grps \<sigma> ! g;
            \<sigma>1 = setGroup \<sigma> g (gr\<lparr>g_stats := (g_stats gr)
                    \<lparr>gs_valid := True, gs_totalTime := 0, gs_effectiveTime := 0, gs_nsamples := 0\<rparr>\<rparr>);
            sg = gs_group (g_stats gr)
        in
        if \<not> sg < length (grps \<sigma>1) then Inl NilDereference
        else
          (case forEach (addGroupSubStats g) (g_profiles (grps \<sigma>1 ! sg)) \<sigma>1 of
             Inl e \<Rightarrow> Inl e
           | Inr \<sigma>2 \<Rightarrow> forEach (setGroupShares g) (g_profiles (grps \<sigma>2 ! sg)) \<sigma>2))"

definition redeclare_group_msg :: string where
  "redeclare_group_msg = ''attempt to redeclare group detected''"

definition newGroup :: "state \<Rightarrow> string \<Rightarrow> state \<times> nat" where
  "newGroup \<sigma> gname =
     (case map_of (ggroups \<sigma>) gname of
        Some g \<Rightarrow> (logger Warn redeclare_group_msg \<sigma>, g)
      | None \<Rightarrow>
          let ga = length (grps \<sigma>);
              r = NewProfileBuilder \<sigma>;
              \<sigma>1 = setBuilder (fst r) (snd r) (WithParentGroup ga (bldrs (fst r) ! snd r));
              g = \<lparr>g_name = gname, g_stats = newGroupStats ga, g_builder = snd r, g_profiles = []\<rparr>
          in (\<sigma>1\<lparr>grps := grps \<sigma>1 @ [g], ggroups := ggroups \<sigma>1 @ [(gname, ga)]\<rparr>, ga))"

definition Group :: "state \<Rightarrow> string \<Rightarrow> state \<times> nat" where
  "Group \<sigma> gname =
     (case map_of (ggroups \<sigma>) gname of
        Some g \<Rightarrow> (\<sigma>, g)
      | None \<Rightarrow> newGroup \<sigma> gname)"

definition GroupSt_Profile :: "state \<Rightarrow> nat \<Rightarrow> string \<Rightarrow> error + state \<times> nat" where
  "GroupSt_Profile \<sigma> g pname =
     (if \<not> g < length (grps \<sigma>) then Inl NilDereference
      else
        (case map_of (g_profiles (grps \<sigma> ! g)) pname of
           Some p \<Rightarrow> Inr (\<sigma>, p)
         | None \<Rightarrow> NewProfile \<sigma> (g_builder (grps \<sigma> ! g)) pname))"

text \<open>The package function \<^verbatim>\<open>Profile\<close>.\<close>

definition Profile :: "state \<Rightarrow> string \<Rightarrow> error + state \<times> nat" where
  "Profile \<sigma> pname =
     (let r = Group \<sigma> (default_condition_name \<sigma>) in GroupSt_Profile (fst r) (snd r) pname)"

definition GroupSt_StartTimer :: "state \<Rightarrow> nat \<Rightarrow> int \<Rightarrow> error + state \<times> Timer" where
  "GroupSt_StartTimer \<sigma> g now =
     (case GroupSt_Profile \<sigma> g (default_condition_name \<sigma>) of
        Inl e \<Rightarrow> Inl e
      | Inr r \<Rightarrow> Inr (fst r, StartTimer (snd r) now))"

definition GroupSt_Builder :: "state \<Rightarrow> nat \<Rightarrow> error + nat" where
  "GroupSt_Builder \<sigma> g =
     (if \<not> g < length (grps \<sigma>) then Inl NilDereference else Inr (g_builder (grps \<sigma> ! g)))"

text \<open>
  \<^verbatim>\<open>GroupSt.SetBuilder\<close> clears the builder's parent profile and stores the
  builder in the group. It does not touch the builder's \<^verbatim>\<open>parentGroup\<close>.
\<close>

definition GroupSt_SetBuilder :: "state \<Rightarrow> nat \<Rightarrow> nat \<Rightarrow> error + state" where
  "GroupSt_SetBuilder \<sigma> g pb =
     (if \<not> g < length (grps \<sigma>) \<or> \<not> pb < length (bldrs \<sigma>) then Inl NilDereference
      else
        let \<sigma>1 = setBuilder \<sigma> pb ((bldrs \<sigma> ! pb)\<lparr>pb_parentProfile := None\<rparr>) in
        Inr (setGroup \<sigma>1 g ((grps \<sigma>1 ! g)\<lparr>g_builder := pb\<rparr>)))"

definition GroupSt_update :: "nat \<Rightarrow> state \<Rightarrow> nat \<Rightarrow> error + state" where
  "GroupSt_update n \<sigma> g =
     (if \<not> g < length (grps \<sigma>) then Inl NilDereference
      else
        (case forEach (\<lambda>\<sigma>1 e. ProfileSt_update n \<sigma>1 (snd e)) (g_profiles (grps \<sigma> ! g)) \<sigma> of
           Inl e \<Rightarrow> Inl e
         | Inr \<sigma>2 \<Rightarrow> groupStats_update \<sigma>2 g))"

definition GroupSt_copy :: "nat \<Rightarrow> state \<Rightarrow> nat \<Rightarrow> error + state \<times> nat" where
  "GroupSt_copy n \<sigma> g =
     (if \<not> g < length (grps \<sigma>) then Inl NilDereference
      else if \<not> g_builder (grps \<sigma> ! g) < length (bldrs \<sigma>) then Inl NilDereference
      else
        let gr = grps \<sigma> ! g;
            cga = length (grps \<sigma>);
            cg = \<lparr>g_name = g_name gr, g_stats = groupStats_copy (g_stats gr),
                  g_builder = length (bldrs \<sigma>), g_profiles = []\<rparr>;
            \<sigma>1 = \<sigma>\<lparr>grps := grps \<sigma> @ [cg], bldrs := bldrs \<sigma> @ [Copy (bldrs \<sigma> ! g_builder gr)]\<rparr>
        in
        (case forEach
                (\<lambda>\<sigma>2 e.
                   case ProfileSt_copy n \<sigma>2 (snd e) of
                     Inl er \<Rightarrow> Inl er
                   | Inr r \<Rightarrow>
                       Inr (setGroup (fst r) cga ((grps (fst r) ! cga)
                              \<lparr>g_profiles := g_profiles (grps (fst r) ! cga) @ [(fst e, snd r)]\<rparr>)))
                (g_profiles gr) \<sigma>1 of
           Inl e \<Rightarrow> Inl e
         | Inr \<sigma>3 \<Rightarrow> Inr (\<sigma>3, cga)))"

definition GroupSt_updateAndCopy :: "nat \<Rightarrow> state \<Rightarrow> nat \<Rightarrow> error + state \<times> nat" where
  "GroupSt_updateAndCopy n \<sigma> g =
     (case GroupSt_update n \<sigma> g of
        Inl e \<Rightarrow> Inl e
      | Inr \<sigma>1 \<Rightarrow> GroupSt_copy n \<sigma>1 g)"

subsection \<open>Properties of states\<close>

text \<open>
  Profiles are allocated after their parents: \<^verbatim>\<open>NewProfile\<close> and \<^verbatim>\<open>copy\<close> set a
  \<^verbatim>\<open>parent\<close> pointer only to a profile that exists already. \<open>ancestor \<sigma> b a\<close>
  says that \<open>b\<close> is reached from \<open>a\<close> by following \<^verbatim>\<open>parent\<close> pointers, the chain
  that \<^verbatim>\<open>invalidate\<close> and \<^verbatim>\<open>getFullName\<close> walk. Two states are related by
  \<open>only_valid_changed\<close> when they differ at most in \<^verbatim>\<open>valid\<close> flags of profile stats.
\<close>

definition parents_before :: "state \<Rightarrow> bool" where
  "parents_before \<sigma> =
     (\<forall>a \<in> set [0..<length (profs \<sigma>)].
        case parent (profs \<sigma> ! a) of None \<Rightarrow> True | Some q \<Rightarrow> q < a)"

inductive ancestor :: "state \<Rightarrow> nat \<Rightarrow> nat \<Rightarrow> bool" for \<sigma> where
  parent: "a < length (profs \<sigma>) \<Longrightarrow> parent (profs \<sigma> ! a) = Some b \<Longrightarrow> ancestor \<sigma> b a"
| above: "a < length (profs \<sigma>) \<Longrightarrow> parent (profs \<sigma> ! a) = Some c \<Longrightarrow> ancestor \<sigma> b c
          \<Longrightarrow> ancestor \<sigma> b a"

definition forget_valid :: "ProfileSt \<Rightarrow> ProfileSt" where
  "forget_valid p = p\<lparr>stats := (stats p)\<lparr>valid := True\<rparr>\<rparr>"

definition only_valid_changed :: "state \<Rightarrow> state \<Rightarrow> bool" where
  "only_valid_changed \<sigma> \<sigma>' =
     (\<sigma>'\<lparr>profs := map forget_valid (profs \<sigma>')\<rparr> = \<sigma>\<lparr>profs := map forget_valid (profs \<sigma>)\<rparr>)"


subsection \<open>Running several calls\<close>

definition andThen :: "error + 'a \<Rightarrow> ('a \<Rightarrow> error + 'b) \<Rightarrow> error + 'b" where
  "andThen m f = (case m of Inl e \<Rightarrow> Inl e | Inr x \<Rightarrow> f x)"

text \<open>
  A sample of \<open>d\<close> nanoseconds registered through a timer started on profile
  \<open>p\<close> at instant \<open>t0\<close> and stopped with \<^verbatim>\<open>StopAs(conds...)\<close>.
\<close>

definition timed :: "nat \<Rightarrow> nat \<Rightarrow> int \<Rightarrow> int \<Rightarrow> string list \<Rightarrow> state \<Rightarrow> error + state" where
  "timed n p t0 d conds \<sigma> = StopAs n \<sigma> (StartTimer p t0) (t0 + d) conds"

text \<open>
  Two rounds of registration and update on a composite profile:
  \<^verbatim>\<open>p := Profile("p").MakeComposite()\<close>, a 10ns sample stopped as \<^verbatim>\<open>"x"\<close>, an update
  of \<^verbatim>\<open>p\<close>, a second 10ns sample stopped as \<^verbatim>\<open>"x"\<close>, and a second update.
\<close>

definition two_rounds :: "error + state" where
  "two_rounds =
     andThen (Profile (init 8) ''p'') (\<lambda>r.
     andThen (MakeComposite (fst r) (snd r)) (\<lambda>\<sigma>.
     andThen (timed 2 0 100 10 [''x''] \<sigma>) (\<lambda>\<sigma>.
     andThen (ProfileSt_update 2 \<sigma> 0) (\<lambda>\<sigma>.
     andThen (timed 2 0 200 10 [''x''] \<sigma>) (\<lambda>\<sigma>.
     ProfileSt_update 2 \<sigma> 0)))))"

text \<open>
  A composite profile whose only child holds no sample:
  \<^verbatim>\<open>p := Profile("p").MakeComposite()\<close>, a 10ns sample stopped as \<^verbatim>\<open>"a"\<close> (which
  invalidates \<^verbatim>\<open>p\<close>), then \<^verbatim>\<open>p.Profile("a").MakeComposite()\<close> (which gives \<^verbatim>\<open>a\<close> fresh
  stats), then the update of \<^verbatim>\<open>p\<close>.
\<close>

definition childless_update :: "error + state" where
  "childless_update =
     andThen (Profile (init 8) ''p'') (\<lambda>r.
     andThen (MakeComposite (fst r) (snd r)) (\<lambda>\<sigma>.
     andThen (timed 2 0 100 10 [''a''] \<sigma>) (\<lambda>\<sigma>.
     andThen (ProfileSt_Profile \<sigma> 0 ''a'') (\<lambda>r.
     andThen (MakeComposite (fst r) (snd r)) (\<lambda>\<sigma>.
     ProfileSt_update 2 \<sigma> 0)))))"

text \<open>A group with one profile that holds no sample, updated: \<^verbatim>\<open>Group("g").Profile("x")\<close>.\<close>

definition empty_group_update :: "error + state" where
  "empty_group_update =
     (let r = Group (init 8) ''g'' in
      andThen (GroupSt_Profile (fst r) (snd r) ''x'') (\<lambda>r1.
      GroupSt_update 2 (fst r1) (snd r)))"

text \<open>
  \<^verbatim>\<open>g := Group("g"); g.SetBuilder(NewProfileBuilder())\<close>, then \<^verbatim>\<open>g.Profile("x")\<close>
  twice. The result holds the two returned profiles and the final state.
\<close>

definition set_builder_twice :: "error + (nat \<times> nat \<times> state)" where
  "set_builder_twice =
     (let r = Group (init 8) ''g''; b = NewProfileBuilder (fst r) in
      andThen (GroupSt_SetBuilder (fst b) (snd r) (snd b)) (\<lambda>\<sigma>.
      andThen (GroupSt_Profile \<sigma> (snd r) ''x'') (\<lambda>r1.
      andThen (GroupSt_Profile (fst r1) (snd r) ''x'') (\<lambda>r2.
      Inr (snd r1, snd r2, fst r2)))))"

text \<open>The state a run returned (the initial state when it did not return).\<close>

definition ran :: "error + state \<Rightarrow> state" where
  "ran r = (case r of Inl e \<Rightarrow> init 1 | Inr \<sigma> \<Rightarrow> \<sigma>)"

text \<open>
  A group whose stats have been computed, then a registration below it:
  \<^verbatim>\<open>g := Group("g"); p := g.Profile("p")\<close>, an update of \<^verbatim>\<open>g\<close>, and a 10ns
  sample registered with \<^verbatim>\<open>p.StartTimer().Stop()\<close>.
\<close>

definition group_then_sample :: "error + state" where
  "group_then_sample =
     (let r = Group (init 8) ''g'' in
      andThen (GroupSt_Profile (fst r) (snd r) ''p'') (\<lambda>r1.
      andThen (GroupSt_update 2 (fst r1) (snd r)) (\<lambda>\<sigma>.
      Stop 2 \<sigma> (StartTimer (snd r1) 100) 110)))"

text \<open>
  A retaining leaf with one sample: \<^verbatim>\<open>g := Group("g"); g.Builder().AddMemory();
  m := g.Profile("m"); m.StartTimer().Stop()\<close>.
\<close>

definition retaining_leaf :: "error + state" where
  "retaining_leaf =
     (let r = Group (init 8) ''g'' in
      andThen (GroupSt_Builder (fst r) (snd r)) (\<lambda>b.
      andThen (onBuilder AddMemory (fst r) b) (\<lambda>\<sigma>.
      andThen (GroupSt_Profile \<sigma> (snd r) ''m'') (\<lambda>r1.
      Stop 2 (fst r1) (StartTimer (snd r1) 100) 110))))"

text \<open>
  A composite profile with a leaf below it, both valid:
  \<^verbatim>\<open>p := Profile("p").MakeComposite()\<close>, a 10ns sample stopped as \<^verbatim>\<open>"x"\<close>, and an
  update of \<^verbatim>\<open>p\<close>.
\<close>

definition parent_and_leaf :: "error + state" where
  "parent_and_leaf =
     andThen (Profile (init 8) ''p'') (\<lambda>r.
     andThen (MakeComposite (fst r) (snd r)) (\<lambda>\<sigma>.
     andThen (timed 2 0 100 10 [''x''] \<sigma>) (\<lambda>\<sigma>.
     ProfileSt_update 2 \<sigma> 0)))"

section \<open>Invalidation\<close>

lemma forEach_append:
  "forEach f (xs @ ys) s = (case forEach f xs s of Inl e \<Rightarrow> Inl e | Inr s' \<Rightarrow> forEach f ys s')"
  by (induction xs arbitrary: s) (auto split: sum.splits)

lemma parents_beforeD:
  assumes "parents_before \<sigma>" "a < length (profs \<sigma>)" "parent (profs \<sigma> ! a) = Some q"
  shows "q < a"
proof -
  from assms(2) have "a \<in> set [0..<length (profs \<sigma>)]" by simp
  with assms(1) have "case parent (profs \<sigma> ! a) of None \<Rightarrow> True | Some q \<Rightarrow> q < a"
    unfolding parents_before_def by blast
  with assms(3) show ?thesis by simp
qed

lemma only_valid_changed_refl: "only_valid_changed \<sigma> \<sigma>"
  by (simp add: only_valid_changed_def)

lemma only_valid_changed_trans:
  "only_valid_changed \<sigma> \<sigma>1 \<Longrightarrow> only_valid_changed \<sigma>1 \<sigma>2 \<Longrightarrow> only_valid_changed \<sigma> \<sigma>2"
  by (simp add: only_valid_changed_def)

lemma only_valid_changed_length:
  "only_valid_changed \<sigma> \<sigma>' \<Longrightarrow> length (profs \<sigma>') = length (profs \<sigma>)"
proof -
  assume "only_valid_changed \<sigma> \<sigma>'"
  then have "profs (\<sigma>'\<lparr>profs := map forget_valid (profs \<sigma>')\<rparr>) = profs (\<sigma>\<lparr>profs := map forget_valid (profs \<sigma>)\<rparr>)"
    by (simp only: only_valid_changed_def)
  then have "length (map forget_valid (profs \<sigma>')) = length (map forget_valid (profs \<sigma>))" by simp
  then show ?thesis by simp
qed

lemma only_valid_changed_nth:
  assumes "only_valid_changed \<sigma> \<sigma>'" "b < length (profs \<sigma>)"
  shows "forget_valid (profs \<sigma>' ! b) = forget_valid (profs \<sigma> ! b)"
proof -
  from assms(1) have "profs (\<sigma>'\<lparr>profs := map forget_valid (profs \<sigma>')\<rparr>) = profs (\<sigma>\<lparr>profs := map forget_valid (profs \<sigma>)\<rparr>)"
    by (simp only: only_valid_changed_def)
  then have "map forget_valid (profs \<sigma>') ! b = map forget_valid (profs \<sigma>) ! b" by simp
  with assms(2) only_valid_changed_length [OF assms(1)] show ?thesis by simp
qed

lemma forget_valid_parent: "forget_valid p = forget_valid q \<Longrightarrow> parent p = parent q"
  by (metis ProfileSt.select_convs(2) ProfileSt.surjective ProfileSt.update_convs(8) forget_valid_def)

lemma only_valid_changed_setValid:
  "only_valid_changed \<sigma> (setStats \<sigma> a ((stats (profs \<sigma> ! a))\<lparr>valid := v\<rparr>))"
proof -
  have "map forget_valid ((profs \<sigma>)[a := (profs \<sigma> ! a)\<lparr>stats := (stats (profs \<sigma> ! a))\<lparr>valid := v\<rparr>\<rparr>])
        = map forget_valid (profs \<sigma>)"
  proof (cases "a < length (profs \<sigma>)")
    case True
    show ?thesis
      by (rule nth_equalityI) (use True in \<open>auto simp: nth_list_update forget_valid_def\<close>)
  next
    case False
    then have "length (profs \<sigma>) \<le> a" by simp
    then show ?thesis by (simp only: list_update_beyond)
  qed
  then show ?thesis by (simp add: only_valid_changed_def setStats_def setProfile_def)
qed

lemma only_valid_changed_parent:
  "only_valid_changed \<sigma> \<sigma>' \<Longrightarrow> b < length (profs \<sigma>) \<Longrightarrow> parent (profs \<sigma>' ! b) = parent (profs \<sigma> ! b)"
  by (rule forget_valid_parent) (rule only_valid_changed_nth)

lemma only_valid_changed_parents_before:
  assumes "only_valid_changed \<sigma> \<sigma>'" "parents_before \<sigma>"
  shows "parents_before \<sigma>'"
  using assms(2) only_valid_changed_length [OF assms(1)] only_valid_changed_parent [OF assms(1)]
  by (simp add: parents_before_def)

lemma invalidate_spec:
  "invalidate n \<sigma> a = Inr \<sigma>' \<Longrightarrow>
     only_valid_changed \<sigma> \<sigma>' \<and> a < length (profs \<sigma>) \<and> \<not> valid (stats (profs \<sigma>' ! a))
     \<and> (\<forall>b. valid (stats (profs \<sigma>' ! b)) \<longrightarrow> valid (stats (profs \<sigma> ! b)))"
proof (induction n arbitrary: \<sigma> a)
  case 0
  then show ?case by simp
next
  case (Suc n)
  let ?\<sigma>1 = "setStats \<sigma> a ((stats (profs \<sigma> ! a))\<lparr>valid := False\<rparr>)"
  from Suc.prems have a: "a < length (profs \<sigma>)" by (auto split: if_splits)
  have ovc1: "only_valid_changed \<sigma> ?\<sigma>1" by (rule only_valid_changed_setValid)
  have inv1: "\<not> valid (stats (profs ?\<sigma>1 ! a))" using a by (simp add: setStats_def setProfile_def)
  have mono1: "\<forall>b. valid (stats (profs ?\<sigma>1 ! b)) \<longrightarrow> valid (stats (profs \<sigma> ! b))"
    using a by (auto simp: setStats_def setProfile_def nth_list_update)
  show ?case
  proof (cases "parent (profs ?\<sigma>1 ! a)")
    case None
    with Suc.prems a have "\<sigma>' = ?\<sigma>1" by (simp add: Let_def)
    with ovc1 inv1 mono1 a show ?thesis by blast
  next
    case (Some pp)
    with Suc.prems a have "invalidate n ?\<sigma>1 pp = Inr \<sigma>'" by (simp add: Let_def)
    from Suc.IH [OF this] have ih: "only_valid_changed ?\<sigma>1 \<sigma>'"
      "\<forall>b. valid (stats (profs \<sigma>' ! b)) \<longrightarrow> valid (stats (profs ?\<sigma>1 ! b))" by blast+
    from only_valid_changed_trans [OF ovc1 ih(1)] ih(2) inv1 mono1 a show ?thesis by blast
  qed
qed

lemma invalidate_returns:
  "parents_before \<sigma> \<Longrightarrow> a < length (profs \<sigma>) \<Longrightarrow> a < n \<Longrightarrow> \<exists>\<sigma>'. invalidate n \<sigma> a = Inr \<sigma>'"
proof (induction n arbitrary: \<sigma> a)
  case 0
  then show ?case by simp
next
  case (Suc n)
  let ?\<sigma>1 = "setStats \<sigma> a ((stats (profs \<sigma> ! a))\<lparr>valid := False\<rparr>)"
  have ovc1: "only_valid_changed \<sigma> ?\<sigma>1" by (rule only_valid_changed_setValid)
  then have pb1: "parents_before ?\<sigma>1" using Suc.prems(1) by (rule only_valid_changed_parents_before)
  have len1: "length (profs ?\<sigma>1) = length (profs \<sigma>)" using ovc1 by (rule only_valid_changed_length)
  show ?case
  proof (cases "parent (profs ?\<sigma>1 ! a)")
    case None
    with Suc.prems show ?thesis by (simp add: Let_def)
  next
    case (Some pp)
    then have "parent (profs \<sigma> ! a) = Some pp"
      using only_valid_changed_parent [OF ovc1 Suc.prems(2)] by simp
    with Suc.prems(1,2) have "pp < a" by (rule parents_beforeD)
    with Suc.prems have "pp < length (profs ?\<sigma>1)" "pp < n" using len1 by auto
    from Suc.IH [OF pb1 this] Some Suc.prems(2) show ?thesis by (simp add: Let_def)
  qed
qed

lemma ancestor_below: "ancestor \<sigma> b a \<Longrightarrow> parents_before \<sigma> \<Longrightarrow> b < a"
proof (induction rule: ancestor.induct)
  case (parent a b)
  then show ?case by (auto dest: parents_beforeD)
next
  case (above a c b)
  then have "c < a" by (auto dest: parents_beforeD)
  with above show ?case by simp
qed

lemma ancestor_only_valid_changed:
  "ancestor \<sigma> b a \<Longrightarrow> only_valid_changed \<sigma> \<sigma>' \<Longrightarrow> ancestor \<sigma>' b a"
proof (induction rule: ancestor.induct)
  case (parent a b)
  then show ?case
    using only_valid_changed_parent [of \<sigma> \<sigma>' a] only_valid_changed_length [of \<sigma> \<sigma>']
    by (auto intro: ancestor.parent)
next
  case (above a c b)
  then show ?case
    using only_valid_changed_parent [of \<sigma> \<sigma>' a] only_valid_changed_length [of \<sigma> \<sigma>']
    by (auto intro: ancestor.above)
qed

lemma invalidate_ancestors:
  "invalidate n \<sigma> a = Inr \<sigma>' \<Longrightarrow> ancestor \<sigma> b a \<Longrightarrow> \<not> valid (stats (profs \<sigma>' ! b))"
proof (induction n arbitrary: \<sigma> a)
  case 0
  then show ?case by simp
next
  case (Suc n)
  let ?\<sigma>1 = "setStats \<sigma> a ((stats (profs \<sigma> ! a))\<lparr>valid := False\<rparr>)"
  have ovc1: "only_valid_changed \<sigma> ?\<sigma>1" by (rule only_valid_changed_setValid)
  from Suc.prems(2) obtain c where c: "parent (profs \<sigma> ! a) = Some c" "b = c \<or> ancestor \<sigma> b c"
    by (auto elim: ancestor.cases)
  from Suc.prems(1) have a: "a < length (profs \<sigma>)" by (auto split: if_splits)
  from c(1) have "parent (profs ?\<sigma>1 ! a) = Some c" using only_valid_changed_parent [OF ovc1 a] by simp
  with Suc.prems(1) a have rec: "invalidate n ?\<sigma>1 c = Inr \<sigma>'" by (simp add: Let_def)
  from c(2) show ?case
  proof
    assume "b = c"
    with invalidate_spec [OF rec] show ?thesis by blast
  next
    assume "ancestor \<sigma> b c"
    then have "ancestor ?\<sigma>1 b c" using ovc1 by (rule ancestor_only_valid_changed)
    from Suc.IH [OF rec this] show ?thesis .
  qed
qed


section \<open>Builder thread counts\<close>

text \<open>
  C8. With at least one core configured, \<^verbatim>\<open>WithNThreads(n)\<close> leaves the builder's
  thread count between 1 and the core count: a request of 0 logs an error and
  gives 1, a request above the core count gives the core count, and any other
  request is kept. \<^verbatim>\<open>WithNCores(n)\<close> only replaces 0 by 1 (with the same error) and
  keeps every other request, also one above the core count, without logging.
\<close>

theorem WithNThreads_range:
  assumes "pb < length (bldrs \<sigma>)" and "1 \<le> cores \<sigma>"
  shows "(case WithNThreads \<sigma> pb n of
            Inl e \<Rightarrow> False
          | Inr \<sigma>1 \<Rightarrow>
              pb_nThreads (bldrs \<sigma>1 ! pb) = (if n = 0 then 1 else if n > cores \<sigma> then cores \<sigma> else n)
              \<and> 1 \<le> pb_nThreads (bldrs \<sigma>1 ! pb) \<and> pb_nThreads (bldrs \<sigma>1 ! pb) \<le> cores \<sigma>
              \<and> logs \<sigma>1 = (if n = 0 then logs \<sigma> @ [(Error, threads_msg)] else logs \<sigma>))
       \<and> (case WithNCores \<sigma> pb n of
            Inl e \<Rightarrow> False
          | Inr \<sigma>2 \<Rightarrow>
              pb_nThreads (bldrs \<sigma>2 ! pb) = (if n = 0 then 1 else n)
              \<and> logs \<sigma>2 = (if n = 0 then logs \<sigma> @ [(Error, threads_msg)] else logs \<sigma>))"
proof -
  have n0: "n \<le> 0 \<longleftrightarrow> n = 0" by simp
  have c1: "\<not> 1 > cores \<sigma>" using assms(2) by (cases "cores \<sigma> = 0") auto
  have pos: "n \<noteq> 0 \<Longrightarrow> 1 \<le> n" by (simp add: word_le_nat_alt unat_gt_0 Suc_le_eq word_neq_0_conv)
  show ?thesis
    using assms c1 pos
    by (auto simp: WithNThreads_def WithNCores_def onBuilder_def setBuilder_def logger_def n0 Let_def)
qed

theorem WithNThreads_range_witness:
  "(case WithNThreads (fst (NewProfileBuilder (init 8))) 0 0 of
      Inl e \<Rightarrow> False
    | Inr \<sigma>1 \<Rightarrow> pb_nThreads (bldrs \<sigma>1 ! 0) = 1 \<and> logs \<sigma>1 = [(Error, threads_msg)])
   \<and> (case WithNCores (fst (NewProfileBuilder (init 8))) 0 0 of
      Inl e \<Rightarrow> False
    | Inr \<sigma>2 \<Rightarrow> pb_nThreads (bldrs \<sigma>2 ! 0) = 1)"
  using WithNThreads_range [of 0 "fst (NewProfileBuilder (init 8))" 0]
  by (simp add: NewProfileBuilder_def init_def split: sum.splits)

section \<open>Aggregates of a composite profile\<close>

text \<open>
  C1 (the code departs from it). The claim asks that after every update pass a
  composite profile's sample count is the sum of its children's. The composite
  branch of \<^verbatim>\<open>profileStats.update\<close> resets \<^verbatim>\<open>totalTime\<close> and \<^verbatim>\<open>effectiveTime\<close> but
  not \<^verbatim>\<open>nsamples\<close>, so the count of the previous round stays in: after two rounds
  with one child holding 2 samples, the composite profile reports 3 samples and
  the child's \<^verbatim>\<open>taken\<close> is 2/3.
\<close>

theorem composite_nsamples_accumulates:
  "(case two_rounds of
      Inl e \<Rightarrow> False
    | Inr \<sigma> \<Rightarrow>
        composite (profs \<sigma> ! 0)
        \<and> subProfiles (profs \<sigma> ! 0) = [(''x'', 1)]
        \<and> nsamples (stats (profs \<sigma> ! 1)) = 2
        \<and> nsamples (stats (profs \<sigma> ! 0)) = 3
        \<and> totalTime (stats (profs \<sigma> ! 0)) = totalTime (stats (profs \<sigma> ! 1))
        \<and> taken (stats (profs \<sigma> ! 1)) = Fin (2 / 3))"
  unfolding two_rounds_def by code_simp

section \<open>Ratios with a zero divisor\<close>

text \<open>
  C5 (the code departs from it). The claim asks that a ratio with a zero divisor
  is 0 and that no update fails. Updating a composite profile whose children
  hold no sample panics on the integer division for \<^verbatim>\<open>meanTime\<close>, and updating
  a group whose profiles hold no sample stores not-a-number in the profile's
  \<^verbatim>\<open>timeslice\<close> and \<^verbatim>\<open>taken\<close>.
\<close>

theorem zero_divisor_update:
  "childless_update = Inl DivideByZero
   \<and> (case empty_group_update of
        Inl e \<Rightarrow> False
      | Inr \<sigma> \<Rightarrow>
          g_profiles (grps \<sigma> ! 0) = [(''x'', 0)]
          \<and> nsamples (stats (profs \<sigma> ! 0)) = 0
          \<and> timeslice (stats (profs \<sigma> ! 0)) = NaN
          \<and> taken (stats (profs \<sigma> ! 0)) = NaN)"
  unfolding childless_update_def empty_group_update_def by code_simp

section \<open>Get-or-create of a profile\<close>

text \<open>
  C6 (the code departs from it). The claim asks that \<^verbatim>\<open>Profile(n)\<close> on any group
  registers the profile it creates, so that a second call returns the same
  profile. \<^verbatim>\<open>GroupSt.SetBuilder\<close> stores a builder whose \<^verbatim>\<open>parentGroup\<close> it does
  not set, so after \<^verbatim>\<open>g.SetBuilder(NewProfileBuilder())\<close> the profiles that
  \<^verbatim>\<open>g.Profile("x")\<close> creates are not entered in the group: two calls return two
  different profiles and the group's map stays empty.
\<close>

theorem group_profile_not_registered:
  "(case set_builder_twice of
      Inl e \<Rightarrow> False
    | Inr r \<Rightarrow>
        fst r = 0 \<and> fst (snd r) = 1
        \<and> g_profiles (grps (snd (snd r)) ! 0) = []
        \<and> name (profs (snd (snd r)) ! 0) = ''x''
        \<and> name (profs (snd (snd r)) ! 1) = ''x'')"
  unfolding set_builder_twice_def by code_simp

section \<open>What a registration invalidates\<close>

text \<open>
  C3 (as amended). A registration on profile \<open>a\<close> marks every profile on
  \<open>a\<close>'s parent chain invalid, up to the top-level profile; \<open>a\<close> itself ends
  invalid when it retains samples and valid when it is memoryless.
\<close>

theorem registerSample_invalidates_ancestors:
  assumes "parents_before \<sigma>" and "a < length (profs \<sigma>)"
    and "nThreads (profs \<sigma> ! a) \<noteq> 0" and "nsamples (stats (profs \<sigma> ! a)) + 1 \<noteq> 0"
  shows "(case registerSample \<sigma> a smp of
            Inl e \<Rightarrow> False
          | Inr \<sigma>' \<Rightarrow>
              (\<forall>b. ancestor \<sigma> b a \<longrightarrow> \<not> valid (stats (profs \<sigma>' ! b)))
              \<and> valid (stats (profs \<sigma>' ! a)) = (\<not> memory (profs \<sigma> ! a)))"
proof -
  from invalidate_returns [OF assms(1,2) assms(2)]
  obtain \<sigma>1 where inv: "invalidate (length (profs \<sigma>)) \<sigma> a = Inr \<sigma>1" by blast
  note spec = invalidate_spec [OF inv]
  from spec have ovc: "only_valid_changed \<sigma> \<sigma>1" and bad: "\<not> valid (stats (profs \<sigma>1 ! a))" by blast+
  have len: "length (profs \<sigma>1) = length (profs \<sigma>)" using ovc by (rule only_valid_changed_length)
  have fv: "forget_valid (profs \<sigma>1 ! a) = forget_valid (profs \<sigma> ! a)"
    using ovc assms(2) by (rule only_valid_changed_nth)
  have same: "memory (profs \<sigma>1 ! a) = memory (profs \<sigma> ! a)"
    "nThreads (profs \<sigma>1 ! a) = nThreads (profs \<sigma> ! a)"
    "nsamples (stats (profs \<sigma>1 ! a)) = nsamples (stats (profs \<sigma> ! a))"
    using arg_cong [OF fv, of memory] arg_cong [OF fv, of nThreads]
      arg_cong [OF fv, of "\<lambda>p. nsamples (stats p)"]
    by (simp_all add: forget_valid_def)
  have anc: "\<not> valid (stats (profs \<sigma>1 ! b))" "b \<noteq> a" if "ancestor \<sigma> b a" for b
    using invalidate_ancestors [OF inv that] ancestor_below [OF that assms(1)] by auto
  show ?thesis
    using inv bad same assms(2,3,4) len anc
    by (auto simp: registerSample_def Let_def setStats_def setProfile_def nth_list_update)
qed


theorem registerSample_invalidates_ancestors_witness:
  "parents_before (ran parent_and_leaf) \<and> 1 < length (profs (ran parent_and_leaf))
   \<and> ancestor (ran parent_and_leaf) 0 1
   \<and> valid (stats (profs (ran parent_and_leaf) ! 0))
   \<and> \<not> memory (profs (ran parent_and_leaf) ! 1)
   \<and> (case registerSample (ran parent_and_leaf) 1 (newSample 200 230) of
         Inl e \<Rightarrow> False
       | Inr \<sigma>' \<Rightarrow> \<not> valid (stats (profs \<sigma>' ! 0)) \<and> valid (stats (profs \<sigma>' ! 1)))"
proof -
  have h1: "parents_before (ran parent_and_leaf)" by code_simp
  have h2: "1 < length (profs (ran parent_and_leaf))" by code_simp
  have h3: "nThreads (profs (ran parent_and_leaf) ! 1) \<noteq> 0" by code_simp
  have h4: "nsamples (stats (profs (ran parent_and_leaf) ! 1)) + 1 \<noteq> 0" by code_simp
  have h5: "parent (profs (ran parent_and_leaf) ! 1) = Some 0" by code_simp
  have h6: "valid (stats (profs (ran parent_and_leaf) ! 0))" by code_simp
  have h7: "\<not> memory (profs (ran parent_and_leaf) ! 1)" by code_simp
  have anc: "ancestor (ran parent_and_leaf) 0 1" using h2 h5 by (rule ancestor.parent)
  from registerSample_invalidates_ancestors [OF h1 h2 h3 h4, of "newSample 200 230"] anc h7
  have "(case registerSample (ran parent_and_leaf) 1 (newSample 200 230) of
         Inl e \<Rightarrow> False
       | Inr \<sigma>' \<Rightarrow> \<not> valid (stats (profs \<sigma>' ! 0)) \<and> valid (stats (profs \<sigma>' ! 1)))"
    by (auto split: sum.splits)
  with h1 h2 anc h6 h7 show ?thesis by blast
qed

text \<open>
  The claim as stated fails twice. The parent chain ends at the top-level
  profile (\<^verbatim>\<open>GroupSt.addProfile\<close> sets its \<^verbatim>\<open>parent\<close> to \<^verbatim>\<open>nil\<close>), so the group's
  stats, once computed, stay valid through a registration below the group. And
  the update pass is not the only way back to valid: \<^verbatim>\<open>MakeComposite\<close> on an
  invalid retaining leaf gives the profile fresh, valid stats.
\<close>

theorem group_stats_stay_valid:
  "group_then_sample = Inr (ran group_then_sample)
   \<and> g_profiles (grps (ran group_then_sample) ! 0) = [(''p'', 0)]
   \<and> nsamples (stats (profs (ran group_then_sample) ! 0)) = 1
   \<and> gs_valid (g_stats (grps (ran group_then_sample) ! 0))
   \<and> gs_nsamples (g_stats (grps (ran group_then_sample) ! 0)) = 0
   \<and> retaining_leaf = Inr (ran retaining_leaf)
   \<and> \<not> valid (stats (profs (ran retaining_leaf) ! 0))
   \<and> MakeComposite (ran retaining_leaf) 0 = Inr (ran (MakeComposite (ran retaining_leaf) 0))
   \<and> valid (stats (profs (ran (MakeComposite (ran retaining_leaf) 0)) ! 0))"
  by code_simp


end
